theory Spec2Isabelle
  imports Main "HOL-Library.Word"
begin

section \<open>The vault Config account of restakingpy\<close>

text \<open>
  The development embeds \<^verbatim>\<open>src/restakingpy/accounts/vault/config.py\<close>: the class
  \<^verbatim>\<open>Config\<close>, its static methods \<^verbatim>\<open>deserialize\<close>, \<^verbatim>\<open>seeds\<close> and
  \<^verbatim>\<open>find_program_address\<close>, and the Python built-ins they call.
\<close>

subsection \<open>Bytes, slices and integers\<close>

text \<open>
  A Python \<^verbatim>\<open>bytes\<close> object is a list of 8-bit values; a Python \<^verbatim>\<open>int\<close> is unbounded.
\<close>

type_synonym byte = "8 word"
type_synonym bytes = "byte list"

text \<open>
  \<^verbatim>\<open>data[i:j]\<close> for indices \<open>0 \<le> i \<le> j\<close>, the only ones the source uses. A Python slice
  never raises: past the end of the buffer it is shorter than \<open>j - i\<close>, possibly empty.
\<close>

definition slice :: "bytes \<Rightarrow> nat \<Rightarrow> nat \<Rightarrow> bytes" where
  "slice data i j = take (j - i) (drop i data)"

text \<open>
  \<^verbatim>\<open>int.from_bytes(bs, byteorder='little')\<close>: the first byte is the least significant.
  It accepts any length; the empty byte string gives 0.
\<close>

fun int_from_bytes_little :: "bytes \<Rightarrow> int" where
  "int_from_bytes_little [] = 0"
| "int_from_bytes_little (b # bs) = uint b + 256 * int_from_bytes_little bs"

text \<open>
  \<^verbatim>\<open>int.from_bytes(bs)\<close> with no byte order, as the source reads \<^verbatim>\<open>bump\<close>: the byte order
  defaults to \<^verbatim>\<open>'big'\<close> (Python 3.11 and later), the first byte is the most significant.
\<close>

definition int_from_bytes_big :: "bytes \<Rightarrow> int" where
  "int_from_bytes_big bs = foldl (\<lambda>acc b. 256 * acc + uint b) 0 bs"

subsection \<open>The account identifier\<close>

text \<open>
  The only failure of the decoder. \<^verbatim>\<open>Pubkey.from_bytes\<close> raises Python's \<^verbatim>\<open>ValueError\<close>
  on a byte string that is not 32 bytes long; no other call of \<^verbatim>\<open>deserialize\<close> can raise
  on a \<^verbatim>\<open>bytes\<close> argument. The specification calls this failure OutOfBounds.
\<close>

datatype error = ValueError

text \<open>
  Modelled from the spec: the class \<^verbatim>\<open>Pubkey\<close> of the external library \<^verbatim>\<open>solders\<close>, which
  is imported by the source and not part of it. The specification (section 6) describes it
  as a 32-byte fixed-size opaque identifier with equality and byte-slice construction, and
  (section 4.1) a field read needs enough remaining bytes. So an identifier is the byte
  string it was built from, and building one from a slice that is not 32 bytes long fails.
\<close>

datatype Pubkey = Pubkey (to_bytes: bytes)

definition Pubkey_from_bytes :: "bytes \<Rightarrow> error + Pubkey" where
  "Pubkey_from_bytes raw = (if length raw = 32 then Inr (Pubkey raw) else Inl ValueError)"

subsection \<open>The Config class\<close>

record Config =
  admin :: Pubkey
  restaking_program :: Pubkey
  epoch_length :: int
  num_vaults :: int
  deposit_withdrawal_fee_cap_bps :: int
  fee_rate_of_change_bps :: int
  fee_bump_bps :: int
  program_fee_bps :: int
  program_fee_wallet :: Pubkey
  fee_admin :: Pubkey
  bump :: int

text \<open>
  \<^verbatim>\<open>Config.deserialize\<close>, statement by statement: the cursor \<open>offset\<close> starts at 0, skips 8
  bytes, and advances by the width of each field. The four identifier reads can raise; the
  integer reads cannot.
\<close>

definition deserialize :: "bytes \<Rightarrow> error + Config" where
  "deserialize data =
    (let offset = (0::nat);
         offset = offset + 8
     in case Pubkey_from_bytes (slice data offset (offset + 32)) of
       Inl e \<Rightarrow> Inl e
     | Inr admin_v \<Rightarrow>
    (let offset = offset + 32
     in case Pubkey_from_bytes (slice data offset (offset + 32)) of
       Inl e \<Rightarrow> Inl e
     | Inr restaking_program_v \<Rightarrow>
    (let offset = offset + 32;
         epoch_length_v = int_from_bytes_little (slice data offset (offset + 8));
         offset = offset + 8;
         num_vaults_v = int_from_bytes_little (slice data offset (offset + 8));
         offset = offset + 8;
         deposit_withdrawal_fee_cap_bps_v = int_from_bytes_little (slice data offset (offset + 2));
         offset = offset + 2;
         fee_rate_of_change_bps_v = int_from_bytes_little (slice data offset (offset + 2));
         offset = offset + 2;
         fee_bump_bps_v = int_from_bytes_little (slice data offset (offset + 2));
         offset = offset + 2;
         program_fee_bps_v = int_from_bytes_little (slice data offset (offset + 2));
         offset = offset + 2
     in case Pubkey_from_bytes (slice data offset (offset + 32)) of
       Inl e \<Rightarrow> Inl e
     | Inr program_fee_wallet_v \<Rightarrow>
    (let offset = offset + 32
     in case Pubkey_from_bytes (slice data offset (offset + 32)) of
       Inl e \<Rightarrow> Inl e
     | Inr fee_admin_v \<Rightarrow>
    (let offset = offset + 32;
         bump_v = int_from_bytes_big (slice data offset (offset + 1))
     in Inr \<lparr> admin = admin_v,
              restaking_program = restaking_program_v,
              epoch_length = epoch_length_v,
              num_vaults = num_vaults_v,
              deposit_withdrawal_fee_cap_bps = deposit_withdrawal_fee_cap_bps_v,
              fee_rate_of_change_bps = fee_rate_of_change_bps_v,
              fee_bump_bps = fee_bump_bps_v,
              program_fee_bps = program_fee_bps_v,
              program_fee_wallet = program_fee_wallet_v,
              fee_admin = fee_admin_v,
              bump = bump_v \<rparr>)))))"

text \<open>\<^verbatim>\<open>Config.seeds\<close>: the list with the one byte string \<^verbatim>\<open>b"config"\<close>.\<close>

definition bytes_of_string :: "string \<Rightarrow> bytes" where
  "bytes_of_string s = map (\<lambda>c. of_nat (of_char c)) s"

definition seeds :: "unit \<Rightarrow> bytes list" where
  "seeds u = [bytes_of_string ''config'']"

text \<open>
  \<^verbatim>\<open>Config.find_program_address\<close>. The search for the address,
  \<^verbatim>\<open>Pubkey.find_program_address\<close> of \<^verbatim>\<open>solders\<close>, is outside the source: it is the
  parameter \<open>derive\<close>, a function of the seed list and the program identifier that gives
  the address and the bump or fails (specification, section 6).
\<close>

definition find_program_address ::
  "(bytes list \<Rightarrow> Pubkey \<Rightarrow> 'e + Pubkey \<times> int) \<Rightarrow> Pubkey \<Rightarrow> 'e + Pubkey \<times> int \<times> bytes list" where
  "find_program_address derive program_id =
    (let seeds_v = seeds ()
     in case derive seeds_v program_id of
       Inl e \<Rightarrow> Inl e
     | Inr (pda, bump_v) \<Rightarrow> Inr (pda, bump_v, seeds_v))"


subsection \<open>The canonical layout\<close>

text \<open>
  The source has no encoder. The two definitions below follow the specification's words
  (sections 3 and 8), to state the round trip: \<^verbatim>\<open>n.to_bytes(k, 'little')\<close> for an integer
  that fits \<open>k\<close> bytes, and the canonical 161-byte layout: the 8-byte discriminator region,
  then the fields in the order of the table, identifiers as their 32 bytes and integers
  little-endian in their declared widths.
\<close>

fun int_to_bytes_little :: "int \<Rightarrow> nat \<Rightarrow> bytes" where
  "int_to_bytes_little n 0 = []"
| "int_to_bytes_little n (Suc k) = word_of_int n # int_to_bytes_little (n div 256) k"

definition encode_canonical :: "bytes \<Rightarrow> Config \<Rightarrow> bytes" where
  "encode_canonical discriminator c =
     discriminator
     @ to_bytes (admin c)
     @ to_bytes (restaking_program c)
     @ int_to_bytes_little (epoch_length c) 8
     @ int_to_bytes_little (num_vaults c) 8
     @ int_to_bytes_little (deposit_withdrawal_fee_cap_bps c) 2
     @ int_to_bytes_little (fee_rate_of_change_bps c) 2
     @ int_to_bytes_little (fee_bump_bps c) 2
     @ int_to_bytes_little (program_fee_bps c) 2
     @ to_bytes (program_fee_wallet c)
     @ to_bytes (fee_admin c)
     @ int_to_bytes_little (bump c) 1"

text \<open>
  A Config value whose integer fields fit their declared widths and whose identifiers are
  32 bytes long.
\<close>

definition fits_layout :: "Config \<Rightarrow> bool" where
  "fits_layout c \<longleftrightarrow>
     length (to_bytes (admin c)) = 32 \<and>
     length (to_bytes (restaking_program c)) = 32 \<and>
     0 \<le> epoch_length c \<and> epoch_length c < 2 ^ 64 \<and>
     0 \<le> num_vaults c \<and> num_vaults c < 2 ^ 64 \<and>
     0 \<le> deposit_withdrawal_fee_cap_bps c \<and> deposit_withdrawal_fee_cap_bps c < 2 ^ 16 \<and>
     0 \<le> fee_rate_of_change_bps c \<and> fee_rate_of_change_bps c < 2 ^ 16 \<and>
     0 \<le> fee_bump_bps c \<and> fee_bump_bps c < 2 ^ 16 \<and>
     0 \<le> program_fee_bps c \<and> program_fee_bps c < 2 ^ 16 \<and>
     length (to_bytes (program_fee_wallet c)) = 32 \<and>
     length (to_bytes (fee_admin c)) = 32 \<and>
     0 \<le> bump c \<and> bump c < 2 ^ 8"

subsection \<open>Example buffers\<close>

text \<open>
  The buffer of the specification's example scenario, with every byte it leaves open set
  to 0: bytes 8 to 39 are 1, bytes 40 to 71 are 2, bytes 72 to 79 hold 100, byte 144 is 5.
\<close>

definition example_buffer_144 :: bytes where
  "example_buffer_144 =
     replicate 8 0 @ replicate 32 1 @ replicate 32 2 @ [100, 0, 0, 0, 0, 0, 0, 0]
     @ replicate 64 0 @ [5] @ replicate 16 0"

text \<open>The same buffer with the 5 at byte 160, where the source reads \<^verbatim>\<open>bump\<close>.\<close>

definition example_buffer_160 :: bytes where
  "example_buffer_160 =
     replicate 8 0 @ replicate 32 1 @ replicate 32 2 @ [100, 0, 0, 0, 0, 0, 0, 0]
     @ replicate 80 0 @ [5]"

section \<open>Properties\<close>

subsection \<open>Slices\<close>

lemma length_slice: "length (slice data i j) = min (j - i) (length data - i)"
  by (simp add: slice_def)

lemma nth_slice:
  "i + k < j \<Longrightarrow> i + k < length data \<Longrightarrow> slice data i j ! k = data ! (i + k)"
  by (simp add: slice_def)

lemma slice_single: "i < length data \<Longrightarrow> slice data i (Suc i) = [data ! i]"
  by (simp add: slice_def take_Suc_conv_app_nth Cons_nth_drop_Suc [symmetric])

lemma slice_eqI:
  assumes "j \<le> length d1" and "j \<le> length d2"
    and "\<And>k. i \<le> k \<Longrightarrow> k < j \<Longrightarrow> d1 ! k = d2 ! k"
  shows "slice d1 i j = slice d2 i j"
proof (rule nth_equalityI)
  show "length (slice d1 i j) = length (slice d2 i j)"
    using assms(1,2) by (simp add: length_slice)
next
  fix k assume "k < length (slice d1 i j)"
  then have "i + k < j" using assms(1) by (simp add: length_slice)
  then show "slice d1 i j ! k = slice d2 i j ! k"
    using assms by (simp add: nth_slice)
qed

lemma slice_replicateI:
  assumes "j \<le> length d" and "\<And>k. i \<le> k \<Longrightarrow> k < j \<Longrightarrow> d ! k = v"
  shows "slice d i j = replicate (j - i) v"
proof (rule nth_equalityI)
  show "length (slice d i j) = length (replicate (j - i) v)"
    using assms(1) by (simp add: length_slice)
next
  fix k assume "k < length (slice d i j)"
  then have "i + k < j" using assms(1) by (simp add: length_slice)
  then show "slice d i j ! k = replicate (j - i) v ! k"
    using assms by (simp add: nth_slice)
qed

lemma slice_append_left: "j \<le> length xs \<Longrightarrow> slice (xs @ ys) i j = slice xs i j"
  by (simp add: slice_def)

subsection \<open>Integers from bytes\<close>

lemma int_from_bytes_little_nonneg: "0 \<le> int_from_bytes_little bs"
  by (induction bs) simp_all

lemma int_from_bytes_little_less: "int_from_bytes_little bs < 256 ^ length bs"
proof (induction bs)
  case Nil
  show ?case by simp
next
  case (Cons b bs)
  have "uint b < 256" using uint_bounded [of b] by simp
  moreover have "int_from_bytes_little bs + 1 \<le> 256 ^ length bs"
    using Cons.IH by simp
  then have "256 * (int_from_bytes_little bs + 1) \<le> 256 * 256 ^ length bs"
    by (simp only: mult_le_cancel_left_pos)
  ultimately show ?case by (simp add: algebra_simps)
qed

lemma int_from_bytes_little_snoc:
  "int_from_bytes_little (bs @ [b]) = int_from_bytes_little bs + 256 ^ length bs * uint b"
  by (induction bs) (simp_all add: algebra_simps)

lemma foldl_big_acc:
  "foldl (\<lambda>acc b. 256 * acc + uint b) a bs
     = a * 256 ^ length bs + int_from_bytes_little (rev bs)"
  by (induction bs arbitrary: a) (simp_all add: int_from_bytes_little_snoc algebra_simps)

lemma int_from_bytes_big_rev: "int_from_bytes_big bs = int_from_bytes_little (rev bs)"
  by (simp add: int_from_bytes_big_def foldl_big_acc)

lemma int_from_bytes_little_sum:
  "int_from_bytes_little bs = (\<Sum>i<length bs. uint (bs ! i) * 256 ^ i)"
  by (induction bs)
    (simp_all add: sum.lessThan_Suc_shift sum_distrib_left algebra_simps del: sum.lessThan_Suc)

subsection \<open>The decoder in closed form\<close>

lemma Pubkey_from_bytes_slice:
  "Pubkey_from_bytes (slice data i (i + 32)) =
     (if i + 32 \<le> length data then Inr (Pubkey (slice data i (i + 32))) else Inl ValueError)"
  by (auto simp: Pubkey_from_bytes_def length_slice)

lemma deserialize_short: "length data < 160 \<Longrightarrow> deserialize data = Inl ValueError"
  by (simp add: deserialize_def Pubkey_from_bytes_slice)

lemma deserialize_long:
  "160 \<le> length data \<Longrightarrow> deserialize data =
     Inr \<lparr> admin = Pubkey (slice data 8 40),
           restaking_program = Pubkey (slice data 40 72),
           epoch_length = int_from_bytes_little (slice data 72 80),
           num_vaults = int_from_bytes_little (slice data 80 88),
           deposit_withdrawal_fee_cap_bps = int_from_bytes_little (slice data 88 90),
           fee_rate_of_change_bps = int_from_bytes_little (slice data 90 92),
           fee_bump_bps = int_from_bytes_little (slice data 92 94),
           program_fee_bps = int_from_bytes_little (slice data 94 96),
           program_fee_wallet = Pubkey (slice data 96 128),
           fee_admin = Pubkey (slice data 128 160),
           bump = int_from_bytes_big (slice data 160 161) \<rparr>"
  by (simp add: deserialize_def Pubkey_from_bytes_slice)

subsection \<open>Short buffers\<close>

text \<open>
  C1, as the specification states it, fails at length 160: every identifier read finds its
  32 bytes, the slice for \<^verbatim>\<open>bump\<close> is empty, \<^verbatim>\<open>int.from_bytes\<close> of the empty byte string
  is 0, and \<^verbatim>\<open>deserialize\<close> returns a Config with \<open>bump = 0\<close> instead of failing.
\<close>

theorem deserialize_160_defaults_bump:
  "length (replicate 160 (0::byte)) < 161 \<and>
   deserialize (replicate 160 0) =
     Inr \<lparr> admin = Pubkey (replicate 32 0), restaking_program = Pubkey (replicate 32 0),
           epoch_length = 0, num_vaults = 0, deposit_withdrawal_fee_cap_bps = 0,
           fee_rate_of_change_bps = 0, fee_bump_bps = 0, program_fee_bps = 0,
           program_fee_wallet = Pubkey (replicate 32 0), fee_admin = Pubkey (replicate 32 0),
           bump = 0 \<rparr> \<and>
   deserialize (replicate 160 0) \<noteq> Inl ValueError"
  by code_simp

text \<open>
  C1, amended: for every input buffer shorter than 160 bytes, \<^verbatim>\<open>Config.deserialize\<close> fails
  with the error of the identifier read (the specification's OutOfBounds), and that is the
  only error \<^verbatim>\<open>deserialize\<close> can raise: every call either fails with it or returns a Config.
\<close>

theorem deserialize_fails_below_160:
  "(length data < 160 \<longrightarrow> deserialize data = Inl ValueError) \<and>
   (deserialize other = Inl ValueError \<or> (\<exists>c. deserialize other = Inr c))"
proof
  show "length data < 160 \<longrightarrow> deserialize data = Inl ValueError"
    by (simp add: deserialize_short)
next
  show "deserialize other = Inl ValueError \<or> (\<exists>c. deserialize other = Inr c)"
  proof (cases "length other < 160")
    case True
    then show ?thesis by (simp add: deserialize_short)
  next
    case False
    then show ?thesis by (simp add: deserialize_long)
  qed
qed

theorem deserialize_fails_below_160_witness:
  "length (replicate 159 (0::byte)) < 160 \<and> deserialize (replicate 159 0) = Inl ValueError"
  using deserialize_fails_below_160 [of "replicate 159 0"] by simp

text \<open>
  C6: on the empty buffer \<^verbatim>\<open>Config.deserialize\<close> fails with the error of the identifier
  read, and it is the very first field read, the one of \<^verbatim>\<open>admin\<close> at offset 8, that fails.
\<close>

theorem deserialize_empty:
  "deserialize [] = Inl ValueError \<and>
   Pubkey_from_bytes (slice [] (0 + 8) (0 + 8 + 32)) = Inl ValueError"
  by (simp add: deserialize_short Pubkey_from_bytes_def slice_def)

subsection \<open>The example scenario\<close>

text \<open>
  C3, as the specification states it, fails: byte 144 lies inside \<^verbatim>\<open>fee_admin\<close> (bytes 128
  to 159), and \<^verbatim>\<open>bump\<close> is read from byte 160. On the example buffer with the open bytes
  set to 0 the decoded \<open>bump\<close> is 0, not 5.
\<close>

theorem example_buffer_144_bump:
  "length example_buffer_144 = 161 \<and>
   slice example_buffer_144 8 40 = replicate 32 1 \<and>
   slice example_buffer_144 40 72 = replicate 32 2 \<and>
   slice example_buffer_144 72 80 = [100, 0, 0, 0, 0, 0, 0, 0] \<and>
   example_buffer_144 ! 144 = 5 \<and>
   deserialize example_buffer_144 =
     Inr \<lparr> admin = Pubkey (replicate 32 1), restaking_program = Pubkey (replicate 32 2),
           epoch_length = 100, num_vaults = 0, deposit_withdrawal_fee_cap_bps = 0,
           fee_rate_of_change_bps = 0, fee_bump_bps = 0, program_fee_bps = 0,
           program_fee_wallet = Pubkey (replicate 32 0),
           fee_admin = Pubkey (replicate 16 0 @ [5] @ replicate 15 0),
           bump = 0 \<rparr> \<and>
   map_sum id bump (deserialize example_buffer_144) \<noteq> Inr 5"
  by code_simp

text \<open>
  C3, amended: for every 161-byte buffer in which bytes 8 to 39 are all 1, bytes 40 to 71
  are all 2, bytes 72 to 79 are 100 followed by seven zeros, and byte 160 is 5,
  \<^verbatim>\<open>Config.deserialize\<close> returns a Config with \<open>admin\<close> equal to 32 bytes of 1,
  \<open>restaking_program\<close> equal to 32 bytes of 2, \<open>epoch_length\<close> equal to 100 and \<open>bump\<close>
  equal to 5.
\<close>

theorem deserialize_example_160:
  assumes "length data = 161"
    and "\<forall>i\<in>{8..39}. data ! i = 1"
    and "\<forall>i\<in>{40..71}. data ! i = 2"
    and "slice data 72 80 = [100, 0, 0, 0, 0, 0, 0, 0]"
    and "data ! 160 = 5"
  shows "\<exists>c. deserialize data = Inr c \<and> admin c = Pubkey (replicate 32 1) \<and>
           restaking_program c = Pubkey (replicate 32 2) \<and> epoch_length c = 100 \<and> bump c = 5"
proof -
  have a: "slice data 8 40 = replicate 32 1"
    using slice_replicateI [of 40 data 8 1] assms(1,2) by simp
  have r: "slice data 40 72 = replicate 32 2"
    using slice_replicateI [of 72 data 40 2] assms(1,3) by simp
  have b: "slice data 160 161 = [5]"
    using slice_single [of 160 data] assms(1,5) by simp
  show ?thesis
    using assms(1) by (simp add: deserialize_long a r b assms(4) int_from_bytes_big_def)
qed

theorem deserialize_example_160_witness:
  "length example_buffer_160 = 161 \<and>
   slice example_buffer_160 8 40 = replicate 32 1 \<and>
   slice example_buffer_160 40 72 = replicate 32 2 \<and>
   slice example_buffer_160 72 80 = [100, 0, 0, 0, 0, 0, 0, 0] \<and>
   example_buffer_160 ! 160 = 5 \<and>
   (\<exists>c. deserialize example_buffer_160 = Inr c \<and> admin c = Pubkey (replicate 32 1) \<and>
           restaking_program c = Pubkey (replicate 32 2) \<and> epoch_length c = 100 \<and> bump c = 5)"
proof -
  have h1: "length example_buffer_160 = 161" by code_simp
  have h2: "\<forall>i\<in>{8..39}. example_buffer_160 ! i = 1" by code_simp
  have h3: "\<forall>i\<in>{40..71}. example_buffer_160 ! i = 2" by code_simp
  have h4: "slice example_buffer_160 72 80 = [100, 0, 0, 0, 0, 0, 0, 0]" by code_simp
  have h5: "example_buffer_160 ! 160 = 5" by code_simp
  have s1: "slice example_buffer_160 8 40 = replicate 32 1" by code_simp
  have s2: "slice example_buffer_160 40 72 = replicate 32 2" by code_simp
  show ?thesis
    using deserialize_example_160 [OF h1 h2 h3 h4 h5] h1 s1 s2 h4 h5 by blast
qed

subsection \<open>Derivation seeds\<close>

text \<open>
  C7: \<^verbatim>\<open>Config.seeds()\<close> is a static method with no argument, so no instance state reaches
  it; every call returns the one-element list holding the six bytes of \<^verbatim>\<open>"config"\<close>.
\<close>

theorem seeds_config:
  "seeds u = [[0x63, 0x6f, 0x6e, 0x66, 0x69, 0x67]] \<and>
   seeds u = [bytes_of_string ''config''] \<and> length (seeds u) = 1"
  by (simp add: seeds_def bytes_of_string_def)

subsection \<open>Buffers of 161 bytes and more\<close>

text \<open>
  C5: \<^verbatim>\<open>Config.deserialize\<close> succeeds on every buffer of exactly 161 bytes, and on that
  buffer followed by any trailing bytes it succeeds with the same Config: the trailing
  bytes reach no field.
\<close>

theorem deserialize_ignores_trailing:
  assumes "length buf = 161"
  shows "\<exists>c. deserialize buf = Inr c \<and> deserialize (buf @ trailing) = Inr c"
  using assms by (simp add: deserialize_long slice_append_left)

theorem deserialize_ignores_trailing_witness:
  "length (replicate 161 (1::byte)) = 161 \<and>
   (\<exists>c. deserialize (replicate 161 1) = Inr c \<and> deserialize (replicate 161 1 @ [9, 9, 9]) = Inr c)"
  using deserialize_ignores_trailing [of "replicate 161 1" "[9, 9, 9]"] by simp

text \<open>
  C9: \<^verbatim>\<open>Config.deserialize\<close> never reads the discriminator region. Two buffers of at
  least 161 bytes that agree on bytes 8 to 160, whatever their bytes 0 to 7 (and whatever
  follows byte 160), decode to the same Config.
\<close>

theorem deserialize_skips_discriminator:
  assumes "161 \<le> length d1" and "161 \<le> length d2"
    and "\<forall>i\<in>{8..160}. d1 ! i = d2 ! i"
  shows "deserialize d1 = deserialize d2 \<and> (\<exists>c. deserialize d1 = Inr c)"
proof -
  have eq: "slice d1 i j = slice d2 i j" if "8 \<le> i" "j \<le> 161" for i j
  proof (rule slice_eqI)
    show "j \<le> length d1" "j \<le> length d2" using that assms(1,2) by simp_all
  next
    fix k assume "i \<le> k" "k < j"
    then have "k \<in> {8..160}" using that by simp
    then show "d1 ! k = d2 ! k" using assms(3) by blast
  qed
  show ?thesis
    using assms(1,2) by (simp add: deserialize_long eq)
qed

theorem deserialize_skips_discriminator_witness:
  "deserialize (replicate 8 0 @ replicate 153 7) = deserialize (replicate 8 255 @ replicate 153 7) \<and>
   (\<exists>c. deserialize (replicate 8 0 @ replicate 153 7) = Inr c)"
proof -
  let ?d1 = "replicate 8 (0::byte) @ replicate 153 7"
  let ?d2 = "replicate 8 (255::byte) @ replicate 153 7"
  have h1: "161 \<le> length ?d1" by simp
  have h2: "161 \<le> length ?d2" by simp
  have h3: "\<forall>i\<in>{8..160}. ?d1 ! i = ?d2 ! i" by (simp add: nth_append)
  show ?thesis using deserialize_skips_discriminator [OF h1 h2 h3] .
qed

text \<open>
  C10: every Config that \<^verbatim>\<open>Config.deserialize\<close> returns has its integer fields within
  their declared widths: \<open>epoch_length\<close> and \<open>num_vaults\<close> below \<open>2^64\<close>, the four
  basis-point fields below \<open>2^16\<close>, \<open>bump\<close> below \<open>2^8\<close>, none negative.
\<close>

theorem deserialize_field_widths:
  assumes "deserialize data = Inr c"
  shows "0 \<le> epoch_length c \<and> epoch_length c < 2 ^ 64 \<and>
         0 \<le> num_vaults c \<and> num_vaults c < 2 ^ 64 \<and>
         0 \<le> deposit_withdrawal_fee_cap_bps c \<and> deposit_withdrawal_fee_cap_bps c < 2 ^ 16 \<and>
         0 \<le> fee_rate_of_change_bps c \<and> fee_rate_of_change_bps c < 2 ^ 16 \<and>
         0 \<le> fee_bump_bps c \<and> fee_bump_bps c < 2 ^ 16 \<and>
         0 \<le> program_fee_bps c \<and> program_fee_bps c < 2 ^ 16 \<and>
         0 \<le> bump c \<and> bump c < 2 ^ 8"
proof -
  have len: "160 \<le> length data"
  proof (rule ccontr)
    assume "\<not> 160 \<le> length data"
    then have "deserialize data = Inl ValueError" by (simp add: deserialize_short)
    with assms show False by simp
  qed
  have bound: "int_from_bytes_little bs < 2 ^ (8 * n)" if "length bs \<le> n" for bs n
  proof -
    have "int_from_bytes_little bs < 256 ^ length bs" by (rule int_from_bytes_little_less)
    also have "(256::int) ^ length bs \<le> 256 ^ n" using that by (simp add: power_increasing)
    also have "(256::int) ^ n = 2 ^ (8 * n)" by (simp add: power_mult)
    finally show ?thesis .
  qed
  have c: "c = \<lparr> admin = Pubkey (slice data 8 40),
           restaking_program = Pubkey (slice data 40 72),
           epoch_length = int_from_bytes_little (slice data 72 80),
           num_vaults = int_from_bytes_little (slice data 80 88),
           deposit_withdrawal_fee_cap_bps = int_from_bytes_little (slice data 88 90),
           fee_rate_of_change_bps = int_from_bytes_little (slice data 90 92),
           fee_bump_bps = int_from_bytes_little (slice data 92 94),
           program_fee_bps = int_from_bytes_little (slice data 94 96),
           program_fee_wallet = Pubkey (slice data 96 128),
           fee_admin = Pubkey (slice data 128 160),
           bump = int_from_bytes_big (slice data 160 161) \<rparr>"
    using assms deserialize_long [OF len] by simp
  have e: "epoch_length c < 2 ^ 64" using bound [of "slice data 72 80" 8] by (simp add: c length_slice)
  have n: "num_vaults c < 2 ^ 64" using bound [of "slice data 80 88" 8] by (simp add: c length_slice)
  have d: "deposit_withdrawal_fee_cap_bps c < 2 ^ 16" using bound [of "slice data 88 90" 2] by (simp add: c length_slice)
  have f: "fee_rate_of_change_bps c < 2 ^ 16" using bound [of "slice data 90 92" 2] by (simp add: c length_slice)
  have g: "fee_bump_bps c < 2 ^ 16" using bound [of "slice data 92 94" 2] by (simp add: c length_slice)
  have p: "program_fee_bps c < 2 ^ 16" using bound [of "slice data 94 96" 2] by (simp add: c length_slice)
  have b: "bump c < 2 ^ 8" using bound [of "rev (slice data 160 161)" 1]
    by (simp add: c length_slice int_from_bytes_big_rev)
  have nn: "0 \<le> epoch_length c" "0 \<le> num_vaults c" "0 \<le> deposit_withdrawal_fee_cap_bps c"
    "0 \<le> fee_rate_of_change_bps c" "0 \<le> fee_bump_bps c" "0 \<le> program_fee_bps c" "0 \<le> bump c"
    by (simp_all add: c int_from_bytes_little_nonneg int_from_bytes_big_rev)
  show ?thesis using e n d f g p b nn by simp
qed

theorem deserialize_field_widths_witness:
  "deserialize (replicate 161 255) =
     Inr \<lparr> admin = Pubkey (replicate 32 255), restaking_program = Pubkey (replicate 32 255),
           epoch_length = 2 ^ 64 - 1, num_vaults = 2 ^ 64 - 1,
           deposit_withdrawal_fee_cap_bps = 65535,
           fee_rate_of_change_bps = 65535, fee_bump_bps = 65535, program_fee_bps = 65535,
           program_fee_wallet = Pubkey (replicate 32 255), fee_admin = Pubkey (replicate 32 255),
           bump = 255 \<rparr> \<and>
   (2 ^ 64 - 1 :: int) < 2 ^ 64 \<and> (65535 :: int) < 2 ^ 16 \<and> (255 :: int) < 2 ^ 8"
proof -
  let ?c = "\<lparr> admin = Pubkey (replicate 32 255), restaking_program = Pubkey (replicate 32 255),
           epoch_length = 2 ^ 64 - 1, num_vaults = 2 ^ 64 - 1,
           deposit_withdrawal_fee_cap_bps = 65535,
           fee_rate_of_change_bps = 65535, fee_bump_bps = 65535, program_fee_bps = 65535,
           program_fee_wallet = Pubkey (replicate 32 255), fee_admin = Pubkey (replicate 32 255),
           bump = 255 \<rparr>"
  have h: "deserialize (replicate 161 255) = Inr ?c" by code_simp
  show ?thesis using deserialize_field_widths [OF h] h by simp
qed

subsection \<open>Byte order\<close>

lemma slice_pair:
  assumes "Suc i < length data"
  shows "slice data i (i + 2) = [data ! i, data ! Suc i]"
proof (rule nth_equalityI)
  show "length (slice data i (i + 2)) = length [data ! i, data ! Suc i]"
    using assms by (simp add: length_slice)
next
  fix k assume "k < length (slice data i (i + 2))"
  then have "k < 2" by (simp add: length_slice)
  then have "k = 0 \<or> k = 1" by arith
  then show "slice data i (i + 2) ! k = [data ! i, data ! Suc i] ! k"
    using assms by (auto simp: nth_slice)
qed

lemma int_from_bytes_little_slice8:
  assumes "i + 8 \<le> length data"
  shows "int_from_bytes_little (slice data i (i + 8)) = (\<Sum>k<8. uint (data ! (i + k)) * 256 ^ k)"
proof -
  have "int_from_bytes_little (slice data i (i + 8))
      = (\<Sum>k<8. uint (slice data i (i + 8) ! k) * 256 ^ k)"
    using assms by (simp add: int_from_bytes_little_sum length_slice)
  also have "\<dots> = (\<Sum>k<8. uint (data ! (i + k)) * 256 ^ k)"
    using assms by (intro sum.cong) (simp_all add: nth_slice)
  finally show ?thesis .
qed

text \<open>
  C4: every integer field is interpreted little-endian. For every buffer of at least 161
  bytes \<^verbatim>\<open>Config.deserialize\<close> succeeds and each integer field is the little-endian value
  of its bytes, the byte at the lowest offset the least significant; in particular, when
  bytes 88 and 89 are \<open>0x34\<close> and \<open>0x12\<close>, \<open>deposit_withdrawal_fee_cap_bps\<close> is
  \<open>0x1234\<close> (4660), not \<open>0x3412\<close>.
\<close>

theorem deserialize_little_endian:
  assumes "161 \<le> length data"
  shows "\<exists>c. deserialize data = Inr c \<and>
           epoch_length c = (\<Sum>k<8. uint (data ! (72 + k)) * 256 ^ k) \<and>
           num_vaults c = (\<Sum>k<8. uint (data ! (80 + k)) * 256 ^ k) \<and>
           deposit_withdrawal_fee_cap_bps c = uint (data ! 88) + 256 * uint (data ! 89) \<and>
           fee_rate_of_change_bps c = uint (data ! 90) + 256 * uint (data ! 91) \<and>
           fee_bump_bps c = uint (data ! 92) + 256 * uint (data ! 93) \<and>
           program_fee_bps c = uint (data ! 94) + 256 * uint (data ! 95) \<and>
           bump c = uint (data ! 160) \<and>
           (data ! 88 = 0x34 \<and> data ! 89 = 0x12 \<longrightarrow>
              deposit_withdrawal_fee_cap_bps c = 0x1234 \<and>
              deposit_withdrawal_fee_cap_bps c = 4660 \<and>
              deposit_withdrawal_fee_cap_bps c \<noteq> 0x3412)"
proof -
  have e: "int_from_bytes_little (slice data 72 80) = (\<Sum>k<8. uint (data ! (72 + k)) * 256 ^ k)"
    using int_from_bytes_little_slice8 [of 72 data] assms by simp
  have n: "int_from_bytes_little (slice data 80 88) = (\<Sum>k<8. uint (data ! (80 + k)) * 256 ^ k)"
    using int_from_bytes_little_slice8 [of 80 data] assms by simp
  have d: "slice data 88 90 = [data ! 88, data ! 89]"
    using slice_pair [of 88 data] assms by simp
  have f: "slice data 90 92 = [data ! 90, data ! 91]"
    using slice_pair [of 90 data] assms by simp
  have g: "slice data 92 94 = [data ! 92, data ! 93]"
    using slice_pair [of 92 data] assms by simp
  have p: "slice data 94 96 = [data ! 94, data ! 95]"
    using slice_pair [of 94 data] assms by simp
  have b: "slice data 160 161 = [data ! 160]"
    using slice_single [of 160 data] assms by simp
  show ?thesis
    using assms by (simp add: deserialize_long e n d f g p b int_from_bytes_big_def)
qed

theorem deserialize_little_endian_witness:
  "161 \<le> length (replicate 72 (0::byte) @ [1, 2, 3, 4, 5, 6, 7, 8] @ replicate 8 0
                    @ [0x34, 0x12] @ replicate 71 0) \<and>
   (replicate 72 (0::byte) @ [1, 2, 3, 4, 5, 6, 7, 8] @ replicate 8 0
      @ [0x34, 0x12] @ replicate 71 0) ! 88 = 0x34 \<and>
   (replicate 72 (0::byte) @ [1, 2, 3, 4, 5, 6, 7, 8] @ replicate 8 0
      @ [0x34, 0x12] @ replicate 71 0) ! 89 = 0x12 \<and>
   (\<exists>c. deserialize (replicate 72 0 @ [1, 2, 3, 4, 5, 6, 7, 8] @ replicate 8 0
                       @ [0x34, 0x12] @ replicate 71 0) = Inr c \<and>
        deposit_withdrawal_fee_cap_bps c = 4660 \<and>
        epoch_length c = 0x0807060504030201)"
proof -
  let ?d = "replicate 72 (0::byte) @ [1, 2, 3, 4, 5, 6, 7, 8] @ replicate 8 0
              @ [0x34, 0x12] @ replicate 71 0"
  have h1: "161 \<le> length ?d" by simp
  have h2: "?d ! 88 = 0x34" by (simp add: nth_append)
  have h3: "?d ! 89 = 0x12" by (simp add: nth_append)
  have e: "(\<Sum>k<8. uint (?d ! (72 + k)) * 256 ^ k) = (0x0807060504030201 :: int)"
    by (simp add: nth_append lessThan_nat_numeral lessThan_Suc)
  from deserialize_little_endian [OF h1] obtain c where
    c: "deserialize ?d = Inr c"
      "epoch_length c = (\<Sum>k<8. uint (?d ! (72 + k)) * 256 ^ k)"
      "?d ! 88 = 0x34 \<and> ?d ! 89 = 0x12 \<longrightarrow> deposit_withdrawal_fee_cap_bps c = 4660"
    by blast
  have "deposit_withdrawal_fee_cap_bps c = 4660" using c(3) h2 h3 by blast
  moreover have "epoch_length c = 0x0807060504030201" using c(2) e by simp
  ultimately show ?thesis using c(1) h1 h2 h3 by blast
qed

subsection \<open>Round trip through the canonical layout\<close>

lemma length_int_to_bytes_little: "length (int_to_bytes_little n k) = k"
  by (induction k arbitrary: n) simp_all

lemma int_from_to_bytes_little:
  "int_from_bytes_little (int_to_bytes_little n k) = n mod 256 ^ k"
proof (induction k arbitrary: n)
  case 0
  show ?case by simp
next
  case (Suc k)
  have "uint (word_of_int n :: byte) = n mod 256" by (simp add: uint_word_of_int)
  then show ?case
    using Suc.IH [of "n div 256"] zmod_zmult2_eq [of "256 ^ k" n 256]
    by (simp add: algebra_simps)
qed

lemma int_from_to_bytes_little_fits:
  "0 \<le> n \<Longrightarrow> n < 2 ^ (8 * k) \<Longrightarrow> int_from_bytes_little (int_to_bytes_little n k) = n"
  by (simp add: int_from_to_bytes_little power_mult)

lemma slice_append_skip:
  "length xs \<le> i \<Longrightarrow> slice (xs @ ys) i j = slice ys (i - length xs) (j - length xs)"
  by (simp add: slice_def)

lemma slice_append_whole: "length xs = j \<Longrightarrow> slice (xs @ ys) 0 j = xs"
  by (simp add: slice_def)

lemma slice_whole: "length xs = j \<Longrightarrow> slice xs 0 j = xs"
  by (simp add: slice_def)

text \<open>
  C2: for every Config whose integer fields fit their declared widths (and whose
  identifiers are 32 bytes), the canonical encoding after any 8-byte discriminator is 161
  bytes long and \<^verbatim>\<open>Config.deserialize\<close> gives back the Config, every field equal.
\<close>

theorem deserialize_encode_canonical:
  assumes "length discriminator = 8" and "fits_layout c"
  shows "length (encode_canonical discriminator c) = 161 \<and>
         deserialize (encode_canonical discriminator c) = Inr c"
proof -
  note f = assms(2) [unfolded fits_layout_def]
  let ?buf = "encode_canonical discriminator c"
  have len: "length ?buf = 161"
    using assms(1) f by (simp add: encode_canonical_def length_int_to_bytes_little)
  note sl = slice_append_skip slice_append_whole slice_whole length_int_to_bytes_little
  have 1: "slice ?buf 8 40 = to_bytes (admin c)"
    using assms(1) f by (simp add: encode_canonical_def sl)
  have 2: "slice ?buf 40 72 = to_bytes (restaking_program c)"
    using assms(1) f by (simp add: encode_canonical_def sl)
  have 3: "slice ?buf 72 80 = int_to_bytes_little (epoch_length c) 8"
    using assms(1) f by (simp add: encode_canonical_def sl)
  have 4: "slice ?buf 80 88 = int_to_bytes_little (num_vaults c) 8"
    using assms(1) f by (simp add: encode_canonical_def sl)
  have 5: "slice ?buf 88 90 = int_to_bytes_little (deposit_withdrawal_fee_cap_bps c) 2"
    using assms(1) f by (simp add: encode_canonical_def sl)
  have 6: "slice ?buf 90 92 = int_to_bytes_little (fee_rate_of_change_bps c) 2"
    using assms(1) f by (simp add: encode_canonical_def sl)
  have 7: "slice ?buf 92 94 = int_to_bytes_little (fee_bump_bps c) 2"
    using assms(1) f by (simp add: encode_canonical_def sl)
  have 8: "slice ?buf 94 96 = int_to_bytes_little (program_fee_bps c) 2"
    using assms(1) f by (simp add: encode_canonical_def sl)
  have 9: "slice ?buf 96 128 = to_bytes (program_fee_wallet c)"
    using assms(1) f by (simp add: encode_canonical_def sl)
  have 10: "slice ?buf 128 160 = to_bytes (fee_admin c)"
    using assms(1) f by (simp add: encode_canonical_def sl)
  have 11: "slice ?buf 160 161 = int_to_bytes_little (bump c) 1"
    using assms(1) f by (simp add: encode_canonical_def sl)
  have i8: "int_from_bytes_little (int_to_bytes_little n 8) = n" if "0 \<le> n" "n < 2 ^ 64" for n
    using that int_from_to_bytes_little_fits [of n 8] by simp
  have i2: "int_from_bytes_little (int_to_bytes_little n 2) = n" if "0 \<le> n" "n < 2 ^ 16" for n
    using that int_from_to_bytes_little_fits [of n 2] by simp
  have i1: "int_from_bytes_big [word_of_int n :: byte] = n" if "0 \<le> n" "n < 2 ^ 8" for n
    using that by (simp add: int_from_bytes_big_def uint_word_of_int)
  have "deserialize ?buf = Inr c"
    using len f by (simp add: deserialize_long 1 2 3 4 5 6 7 8 9 10 11 i8 i2 i1)
  with len show ?thesis by simp
qed

theorem deserialize_encode_canonical_witness:
  "length [1, 0, 0, 0, 0, 0, 0, 0 :: byte] = 8 \<and>
   fits_layout \<lparr> admin = Pubkey (replicate 32 1), restaking_program = Pubkey (replicate 32 2),
           epoch_length = 432000, num_vaults = 2 ^ 64 - 1,
           deposit_withdrawal_fee_cap_bps = 4660,
           fee_rate_of_change_bps = 65535, fee_bump_bps = 0, program_fee_bps = 256,
           program_fee_wallet = Pubkey (replicate 32 3), fee_admin = Pubkey (replicate 32 4),
           bump = 254 \<rparr> \<and>
   deserialize (encode_canonical [1, 0, 0, 0, 0, 0, 0, 0]
       \<lparr> admin = Pubkey (replicate 32 1), restaking_program = Pubkey (replicate 32 2),
           epoch_length = 432000, num_vaults = 2 ^ 64 - 1,
           deposit_withdrawal_fee_cap_bps = 4660,
           fee_rate_of_change_bps = 65535, fee_bump_bps = 0, program_fee_bps = 256,
           program_fee_wallet = Pubkey (replicate 32 3), fee_admin = Pubkey (replicate 32 4),
           bump = 254 \<rparr>) =
     Inr \<lparr> admin = Pubkey (replicate 32 1), restaking_program = Pubkey (replicate 32 2),
           epoch_length = 432000, num_vaults = 2 ^ 64 - 1,
           deposit_withdrawal_fee_cap_bps = 4660,
           fee_rate_of_change_bps = 65535, fee_bump_bps = 0, program_fee_bps = 256,
           program_fee_wallet = Pubkey (replicate 32 3), fee_admin = Pubkey (replicate 32 4),
           bump = 254 \<rparr>"
proof -
  let ?c = "\<lparr> admin = Pubkey (replicate 32 1), restaking_program = Pubkey (replicate 32 2),
           epoch_length = 432000, num_vaults = 2 ^ 64 - 1,
           deposit_withdrawal_fee_cap_bps = 4660,
           fee_rate_of_change_bps = 65535, fee_bump_bps = 0, program_fee_bps = 256,
           program_fee_wallet = Pubkey (replicate 32 3), fee_admin = Pubkey (replicate 32 4),
           bump = 254 \<rparr>"
  have h1: "length [1, 0, 0, 0, 0, 0, 0, 0 :: byte] = 8" by simp
  have h2: "fits_layout ?c" by (simp add: fits_layout_def)
  show ?thesis using deserialize_encode_canonical [OF h1 h2] h1 h2 by simp
qed

subsection \<open>Address derivation\<close>

text \<open>
  C8: \<^verbatim>\<open>Config.find_program_address\<close> is deterministic. Two calls with the same
  program identifier return the same result, which is the result of the derivation
  primitive on \<^verbatim>\<open>Config.seeds()\<close> and the identifier, with \<^verbatim>\<open>Config.seeds()\<close> as the
  returned seed sequence.
\<close>

theorem find_program_address_deterministic:
  assumes "find_program_address derive program_id = r1"
    and "find_program_address derive program_id = r2"
  shows "r1 = r2 \<and>
         r1 = map_sum id (\<lambda>(pda, bump_v). (pda, bump_v, seeds ())) (derive (seeds ()) program_id)"
  using assms by (auto simp: find_program_address_def Let_def split: sum.splits)

theorem find_program_address_deterministic_witness:
  "find_program_address
      (\<lambda>sds pid. Inr (Pubkey (concat sds @ to_bytes pid), 255) :: unit + Pubkey \<times> int)
      (Pubkey (replicate 32 9))
    = Inr (Pubkey ([0x63, 0x6f, 0x6e, 0x66, 0x69, 0x67] @ replicate 32 9), 255,
           [[0x63, 0x6f, 0x6e, 0x66, 0x69, 0x67]])"
proof -
  let ?derive = "\<lambda>sds pid. Inr (Pubkey (concat sds @ to_bytes pid), 255) :: unit + Pubkey \<times> int"
  let ?pid = "Pubkey (replicate 32 9)"
  have h: "find_program_address ?derive ?pid = find_program_address ?derive ?pid" by (rule refl)
  show ?thesis
    using find_program_address_deterministic [OF h h]
    by (simp add: seeds_def bytes_of_string_def)
qed

end
